theory Spec2Isabelle
  imports Main
begin

section \<open>Authentication and session lifecycle of the trivia backend\<close>

text \<open>
  A shallow embedding of \<^verbatim>\<open>AuthService\<close> (middleware/auth.ts) and of the session
  methods of \<^verbatim>\<open>RedisManager\<close> (database/redis.ts).

  \<^item> Time is a number of seconds; every call receives the clock reading \<open>now\<close>
    (\<^verbatim>\<open>new Date()\<close>, and the clock \<^verbatim>\<open>jwt.sign\<close> and \<^verbatim>\<open>jwt.verify\<close> read).
  \<^item> \<^verbatim>\<open>randomUUID()\<close> is an argument of the call that draws it.
  \<^item> The source returns \<^verbatim>\<open>null\<close> or throws on failure; the model returns
    \<open>Inl e\<close>, where \<open>e\<close> names the branch that was taken.
  \<^item> Every function returns the world it leaves behind, also when it fails.
  \<^item> \<open>verifyToken\<close> and \<open>refreshTokens\<close> issue several store commands, with an
    \<^verbatim>\<open>await\<close> between them. Each is given twice: as the whole call, run with nothing in
    between, and as a step function that runs from one \<^verbatim>\<open>await\<close> to the next, so that
    calls can be interleaved.
\<close>

subsection \<open>Data\<close>

type_synonym timestamp = nat

text \<open>The \<^verbatim>\<open>user\<close> argument of \<^verbatim>\<open>generateTokens\<close> (typed \<^verbatim>\<open>any\<close>): the properties it reads.\<close>

record user =
  user_id :: string
  user_email :: string
  user_username :: string
  user_is_host :: "bool option"
  user_is_verified :: "bool option"

text \<open>
  \<^verbatim>\<open>JWTPayload\<close>. A field is \<open>None\<close> where the object has no such property: the
  refresh token is signed over \<^verbatim>\<open>{ sessionId, userId }\<close> only, and \<^verbatim>\<open>iat\<close>, \<^verbatim>\<open>exp\<close>
  are absent until \<^verbatim>\<open>jwt.sign\<close> adds them.
\<close>

record jwt_payload =
  userId :: string
  email :: "string option"
  username :: "string option"
  isHost :: "bool option"
  isVerified :: "bool option"
  sessionId :: string
  deviceId :: "string option"
  iat :: "timestamp option"
  exp :: "timestamp option"

text \<open>
  The JSON object stored under a session key (typed \<^verbatim>\<open>any\<close>). \<^verbatim>\<open>generateTokens\<close> writes
  \<^verbatim>\<open>userId\<close>, \<^verbatim>\<open>deviceId\<close>, \<^verbatim>\<open>createdAt\<close>, \<^verbatim>\<open>lastActivity\<close>; \<^verbatim>\<open>refreshTokens\<close> also reads
  \<^verbatim>\<open>email\<close>, \<^verbatim>\<open>username\<close>, \<^verbatim>\<open>isHost\<close>, \<^verbatim>\<open>isVerified\<close>.
\<close>

record session =
  sess_userId :: string
  sess_deviceId :: "string option"
  createdAt :: timestamp
  lastActivity :: timestamp
  sess_email :: "string option"
  sess_username :: "string option"
  sess_isHost :: "bool option"
  sess_isVerified :: "bool option"

text \<open>
  A token string, symbolically: a payload signed with a key, or a string that is no
  JWT at all.
\<close>

datatype token = JWT string jwt_payload | Malformed string

text \<open>\<^verbatim>\<open>config.jwt\<close>, the durations \<^verbatim>\<open>'1h'\<close>, \<^verbatim>\<open>'7d'\<close> in seconds.\<close>

record jwt_config =
  secret :: string
  expiresIn :: nat
  refreshExpiresIn :: nat

text \<open>
  The failure taxonomy. The source tells its failures apart only in the log; the
  constructors label its failing branches. No branch of the source produces
  \<open>TokenKindMismatch\<close> or \<open>GenerationMismatch\<close>.
\<close>

datatype auth_error =
    TokenMalformed
  | TokenInvalidSignature
  | TokenExpired
  | TokenKindMismatch
  | SessionNotFound
  | UserMismatch
  | GenerationMismatch
  | StoreUnavailable

datatype log_level = Debug | Info | Warn | Err

text \<open>
  The world the service runs in: the two fields of \<^verbatim>\<open>RedisManager\<close>, the keyspace of
  the Redis server (each key with its value and the time at which it expires), the
  outcomes of the client commands still to come (\<open>True\<close>: the command's promise
  rejects; the empty list: every command resolves), and the log.
\<close>

record world =
  client_present :: bool
  isConnected :: bool
  keyspace :: "string \<rightharpoonup> session \<times> timestamp"
  faults :: "bool list"
  log_lines :: "(log_level \<times> string) list"

record issued =
  accessToken :: token
  refreshToken :: token
  issued_sessionId :: string

subsection \<open>The jsonwebtoken library\<close>

text \<open>
  \<^verbatim>\<open>jwt.sign(payload, secret, { expiresIn })\<close> adds \<^verbatim>\<open>iat\<close> and \<^verbatim>\<open>exp = iat + expiresIn\<close>.
  \<^verbatim>\<open>jwt.verify(token, secret)\<close> parses, then checks the signature, then the expiry
  (\<^verbatim>\<open>now >= exp\<close> is expired), and returns the payload.
\<close>

definition jwt_sign :: "jwt_payload \<Rightarrow> string \<Rightarrow> nat \<Rightarrow> timestamp \<Rightarrow> token" where
  "jwt_sign payload key ttl now = JWT key (payload\<lparr>iat := Some now, exp := Some (now + ttl)\<rparr>)"

fun jwt_verify :: "token \<Rightarrow> string \<Rightarrow> timestamp \<Rightarrow> auth_error + jwt_payload" where
  "jwt_verify (Malformed s) key now = Inl TokenMalformed"
| "jwt_verify (JWT k p) key now =
     (if k \<noteq> key then Inl TokenInvalidSignature
      else case exp p of
             None \<Rightarrow> Inr p
           | Some e \<Rightarrow> if e \<le> now then Inl TokenExpired else Inr p)"

subsection \<open>RedisManager: session methods\<close>

definition logger :: "log_level \<Rightarrow> string \<Rightarrow> world \<Rightarrow> world" where
  "logger lvl msg w = w\<lparr>log_lines := log_lines w @ [(lvl, msg)]\<rparr>"

definition isReady :: "world \<Rightarrow> bool" where
  "isReady w = (isConnected w \<and> client_present w)"

text \<open>One awaited client command: whether it rejects, and the outcomes left.\<close>

definition client_command :: "world \<Rightarrow> bool \<times> world" where
  "client_command w =
     (case faults w of
        [] \<Rightarrow> (False, w)
      | f # fs \<Rightarrow> (f, w\<lparr>faults := fs\<rparr>))"

definition session_key :: "string \<Rightarrow> string" where
  "session_key sid = ''session:'' @ sid"

definition setSession ::
  "string \<Rightarrow> session \<Rightarrow> nat \<Rightarrow> timestamp \<Rightarrow> world \<Rightarrow> (auth_error + unit) \<times> world" where
  "setSession sid data ttl now w =
     (if \<not> isReady w then (Inl StoreUnavailable, w)
      else case client_command w of
             (rejected, w') \<Rightarrow>
               if rejected then (Inl StoreUnavailable, w')
               else (Inr (),
                     w'\<lparr>keyspace := (keyspace w')(session_key sid \<mapsto> (data, now + ttl))\<rparr>))"

definition getSession ::
  "string \<Rightarrow> timestamp \<Rightarrow> world \<Rightarrow> (auth_error + session option) \<times> world" where
  "getSession sid now w =
     (if \<not> isReady w then (Inl StoreUnavailable, w)
      else case client_command w of
             (rejected, w') \<Rightarrow>
               if rejected then (Inl StoreUnavailable, w')
               else (Inr (case keyspace w' (session_key sid) of
                            None \<Rightarrow> None
                          | Some (data, expires) \<Rightarrow>
                              if now < expires then Some data else None),
                     w'))"

definition deleteSession :: "string \<Rightarrow> world \<Rightarrow> (auth_error + unit) \<times> world" where
  "deleteSession sid w =
     (if \<not> isReady w then (Inl StoreUnavailable, w)
      else case client_command w of
             (rejected, w') \<Rightarrow>
               if rejected then (Inl StoreUnavailable, w')
               else (Inr (), w'\<lparr>keyspace := (keyspace w')(session_key sid := None)\<rparr>))"

subsection \<open>AuthService\<close>

text \<open>\<^verbatim>\<open>x || false\<close> and \<^verbatim>\<open>x || ''\<close> on a property that may be absent.\<close>

definition or_false :: "bool option \<Rightarrow> bool" where
  "or_false b = (case b of None \<Rightarrow> False | Some v \<Rightarrow> v)"

definition or_empty :: "string option \<Rightarrow> string" where
  "or_empty s = (case s of None \<Rightarrow> [] | Some v \<Rightarrow> v)"

definition generateTokens ::
  "jwt_config \<Rightarrow> timestamp \<Rightarrow> string \<Rightarrow> user \<Rightarrow> string option \<Rightarrow> world
     \<Rightarrow> (auth_error + issued) \<times> world" where
  "generateTokens cfg now uuid u device w =
     (let payload = \<lparr>userId = user_id u,
                     email = Some (user_email u),
                     username = Some (user_username u),
                     isHost = Some (or_false (user_is_host u)),
                     isVerified = Some (or_false (user_is_verified u)),
                     sessionId = uuid,
                     deviceId = device,
                     iat = None, exp = None\<rparr>;
          access = jwt_sign payload (secret cfg) (expiresIn cfg) now;
          refresh = jwt_sign \<lparr>userId = user_id u, email = None, username = None,
                              isHost = None, isVerified = None, sessionId = uuid,
                              deviceId = None, iat = None, exp = None\<rparr>
                             (secret cfg) (refreshExpiresIn cfg) now
      in case setSession uuid
                \<lparr>sess_userId = user_id u, sess_deviceId = device,
                 createdAt = now, lastActivity = now,
                 sess_email = None, sess_username = None,
                 sess_isHost = None, sess_isVerified = None\<rparr>
                (7 * 24 * 60 * 60) now w of
           (Inl e, w1) \<Rightarrow> (Inl e, w1)
         | (Inr _, w1) \<Rightarrow>
             (Inr \<lparr>accessToken = access, refreshToken = refresh, issued_sessionId = uuid\<rparr>, w1))"

text \<open>The \<^verbatim>\<open>catch\<close> block of \<^verbatim>\<open>verifyToken\<close>: one log line by the class of the error.\<close>

definition verifyToken_catch :: "auth_error \<Rightarrow> world \<Rightarrow> world" where
  "verifyToken_catch e w =
     (if e = TokenExpired then logger Debug ''Token expired'' w
      else if e = TokenMalformed \<or> e = TokenInvalidSignature then logger Warn ''Invalid token'' w
      else logger Err ''Token verification error:'' w)"

definition verifyToken ::
  "jwt_config \<Rightarrow> timestamp \<Rightarrow> token \<Rightarrow> world \<Rightarrow> (auth_error + jwt_payload) \<times> world" where
  "verifyToken cfg now tok w =
     (case jwt_verify tok (secret cfg) now of
        Inl e \<Rightarrow> (Inl e, verifyToken_catch e w)
      | Inr decoded \<Rightarrow>
          (case getSession (sessionId decoded) now w of
             (Inl e, w1) \<Rightarrow> (Inl e, verifyToken_catch e w1)
           | (Inr None, w1) \<Rightarrow>
               (Inl SessionNotFound,
                logger Warn (''Session not found for token: '' @ sessionId decoded) w1)
           | (Inr (Some sess), w1) \<Rightarrow>
               (case setSession (sessionId decoded) (sess\<lparr>lastActivity := now\<rparr>)
                       (7 * 24 * 60 * 60) now w1 of
                  (Inl e, w2) \<Rightarrow> (Inl e, verifyToken_catch e w2)
                | (Inr _, w2) \<Rightarrow> (Inr decoded, w2))))"

definition refreshTokens ::
  "jwt_config \<Rightarrow> timestamp \<Rightarrow> string \<Rightarrow> token \<Rightarrow> world
     \<Rightarrow> (auth_error + token \<times> token) \<times> world" where
  "refreshTokens cfg now uuid tok w =
     (case jwt_verify tok (secret cfg) now of
        Inl e \<Rightarrow> (Inl e, logger Err ''Refresh token error:'' w)
      | Inr decoded \<Rightarrow>
          (case getSession (sessionId decoded) now w of
             (Inl e, w1) \<Rightarrow> (Inl e, logger Err ''Refresh token error:'' w1)
           | (Inr None, w1) \<Rightarrow> (Inl SessionNotFound, w1)
           | (Inr (Some sess), w1) \<Rightarrow>
               (if sess_userId sess \<noteq> userId decoded then (Inl UserMismatch, w1)
                else
                  (let u = \<lparr>user_id = sess_userId sess,
                            user_email = or_empty (sess_email sess),
                            user_username = or_empty (sess_username sess),
                            user_is_host = Some (or_false (sess_isHost sess)),
                            user_is_verified = Some (or_false (sess_isVerified sess))\<rparr>
                   in (case generateTokens cfg now uuid u (sess_deviceId sess) w1 of
                         (Inl e, w2) \<Rightarrow> (Inl e, logger Err ''Refresh token error:'' w2)
                       | (Inr tokens, w2) \<Rightarrow>
                           (case deleteSession (sessionId decoded) w2 of
                              (Inl e, w3) \<Rightarrow> (Inl e, logger Err ''Refresh token error:'' w3)
                            | (Inr _, w3) \<Rightarrow>
                                (Inr (accessToken tokens, refreshToken tokens), w3)))))))"

definition revokeSession :: "string \<Rightarrow> world \<Rightarrow> (auth_error + unit) \<times> world" where
  "revokeSession sid w = deleteSession sid w"

definition revokeAllUserSessions :: "string \<Rightarrow> world \<Rightarrow> world" where
  "revokeAllUserSessions uid w = logger Info (''Revoking all sessions for user: '' @ uid) w"

subsection \<open>Auxiliary notions\<close>

text \<open>The store answers: the manager is ready and no command is due to reject.\<close>

definition healthy :: "world \<Rightarrow> bool" where
  "healthy w = (isReady w \<and> faults w = [])"

text \<open>What the Redis server answers to a \<^verbatim>\<open>GET\<close> of a session key at time \<open>now\<close>.\<close>

definition live :: "world \<Rightarrow> string \<Rightarrow> timestamp \<Rightarrow> session option" where
  "live w sid now =
     (case keyspace w (session_key sid) of
        None \<Rightarrow> None
      | Some (data, expires) \<Rightarrow> if now < expires then Some data else None)"

text \<open>The payload of the access token that \<open>generateTokens\<close> signs, as \<^verbatim>\<open>jwt.verify\<close> returns it.\<close>

definition access_payload ::
  "timestamp \<Rightarrow> nat \<Rightarrow> string \<Rightarrow> user \<Rightarrow> string option \<Rightarrow> jwt_payload" where
  "access_payload now ttl uuid u device =
     \<lparr>userId = user_id u, email = Some (user_email u), username = Some (user_username u),
      isHost = Some (or_false (user_is_host u)),
      isVerified = Some (or_false (user_is_verified u)),
      sessionId = uuid, deviceId = device, iat = Some now, exp = Some (now + ttl)\<rparr>"

subsection \<open>A concrete run\<close>

text \<open>
  The default configuration of config/environment.ts, the seeded host user, and a
  connected manager over an empty server. \<open>example_A1\<close>, \<open>example_R1\<close> and \<open>example_W1\<close>
  are the pair and the world that a login at time 0 with session id \<open>s1\<close> produces
  (lemma \<open>example_issue\<close>).
\<close>

definition example_config :: jwt_config where
  "example_config =
     \<lparr>secret = ''dev_jwt_secret_change_in_production'', expiresIn = 3600,
      refreshExpiresIn = 604800\<rparr>"

definition example_user :: user where
  "example_user =
     \<lparr>user_id = ''u1'', user_email = ''host@quizrally.com'', user_username = ''testhost'',
      user_is_host = Some True, user_is_verified = Some True\<rparr>"

definition example_world :: world where
  "example_world =
     \<lparr>client_present = True, isConnected = True, keyspace = Map.empty, faults = [],
      log_lines = []\<rparr>"

definition example_claims_A1 :: jwt_payload where
  "example_claims_A1 =
     \<lparr>userId = ''u1'', email = Some ''host@quizrally.com'', username = Some ''testhost'',
      isHost = Some True, isVerified = Some True, sessionId = ''s1'', deviceId = None,
      iat = Some 0, exp = Some 3600\<rparr>"

definition example_claims_R1 :: jwt_payload where
  "example_claims_R1 =
     \<lparr>userId = ''u1'', email = None, username = None, isHost = None, isVerified = None,
      sessionId = ''s1'', deviceId = None, iat = Some 0, exp = Some 604800\<rparr>"

definition example_A1 :: token where
  "example_A1 = JWT ''dev_jwt_secret_change_in_production'' example_claims_A1"

definition example_R1 :: token where
  "example_R1 = JWT ''dev_jwt_secret_change_in_production'' example_claims_R1"

definition example_session1 :: session where
  "example_session1 =
     \<lparr>sess_userId = ''u1'', sess_deviceId = None, createdAt = 0, lastActivity = 0,
      sess_email = None, sess_username = None, sess_isHost = None, sess_isVerified = None\<rparr>"

definition example_W1 :: world where
  "example_W1 = example_world\<lparr>keyspace := [''session:s1'' \<mapsto> (example_session1, 604800)]\<rparr>"

text \<open>
  \<open>example_A2\<close>, \<open>example_R2\<close> and \<open>example_W2\<close> are the pair and the world that rotating
  \<open>example_R1\<close> at time 10 with the fresh session id \<open>s2\<close> produces (lemma
  \<open>example_rotate\<close>).
\<close>

definition example_claims_A2 :: jwt_payload where
  "example_claims_A2 =
     \<lparr>userId = ''u1'', email = Some [], username = Some [], isHost = Some False,
      isVerified = Some False, sessionId = ''s2'', deviceId = None,
      iat = Some 10, exp = Some 3610\<rparr>"

definition example_claims_R2 :: jwt_payload where
  "example_claims_R2 =
     \<lparr>userId = ''u1'', email = None, username = None, isHost = None, isVerified = None,
      sessionId = ''s2'', deviceId = None, iat = Some 10, exp = Some 604810\<rparr>"

definition example_A2 :: token where
  "example_A2 = JWT ''dev_jwt_secret_change_in_production'' example_claims_A2"

definition example_R2 :: token where
  "example_R2 = JWT ''dev_jwt_secret_change_in_production'' example_claims_R2"

definition example_session2 :: session where
  "example_session2 =
     \<lparr>sess_userId = ''u1'', sess_deviceId = None, createdAt = 10, lastActivity = 10,
      sess_email = None, sess_username = None, sess_isHost = None, sess_isVerified = None\<rparr>"

definition example_W2 :: world where
  "example_W2 = example_world\<lparr>keyspace := [''session:s2'' \<mapsto> (example_session2, 604810)]\<rparr>"

subsection \<open>The worlds the service can reach\<close>

text \<open>
  A session record is plain when it has none of the four properties that only
  \<open>refreshTokens\<close> reads. The reachable worlds start from an empty keyspace and are closed
  under the five operations of \<open>AuthService\<close> and under every change that leaves the
  keyspace alone (connection events, command outcomes, log lines). Keys are never
  removed on expiry; an expired key is invisible to \<open>getSession\<close>.
\<close>

definition plain_session :: "session \<Rightarrow> bool" where
  "plain_session s =
     (sess_email s = None \<and> sess_username s = None \<and> sess_isHost s = None
      \<and> sess_isVerified s = None)"

definition store_plain :: "world \<Rightarrow> bool" where
  "store_plain w = (\<forall>k s e. keyspace w k = Some (s, e) \<longrightarrow> plain_session s)"

inductive reachable :: "world \<Rightarrow> bool" where
  start: "keyspace w = Map.empty \<Longrightarrow> reachable w"
| environment: "reachable w \<Longrightarrow> keyspace w' = keyspace w \<Longrightarrow> reachable w'"
| issue: "reachable w \<Longrightarrow> reachable (snd (generateTokens cfg now uuid u device w))"
| verify: "reachable w \<Longrightarrow> reachable (snd (verifyToken cfg now tok w))"
| rotate: "reachable w \<Longrightarrow> reachable (snd (refreshTokens cfg now uuid tok w))"
| revoke: "reachable w \<Longrightarrow> reachable (snd (revokeSession sid w))"
| revoke_all: "reachable w \<Longrightarrow> reachable (revokeAllUserSessions uid w)"

subsection \<open>Two calls of refreshTokens at once\<close>

text \<open>
  \<open>refreshTokens\<close> gives up control at each \<^verbatim>\<open>await\<close>: after the session is read, after
  \<^verbatim>\<open>generateTokens\<close> has written the new session, and after the old session is deleted.
  \<open>refreshTokens_step\<close> runs one call from one \<^verbatim>\<open>await\<close> to the next, each step issuing one
  store command; three steps in a row are \<open>refreshTokens\<close> (lemma \<open>refreshTokens_steps\<close>).
  \<open>interleave\<close> runs two calls on the same world in the order a schedule gives.
\<close>

datatype rotation =
    Start token
  | Checked jwt_payload session
  | Issued jwt_payload issued
  | Finished "auth_error + token \<times> token"

fun refreshTokens_step ::
  "jwt_config \<Rightarrow> timestamp \<Rightarrow> string \<Rightarrow> rotation \<Rightarrow> world \<Rightarrow> rotation \<times> world" where
  "refreshTokens_step cfg now uuid (Start tok) w =
     (case jwt_verify tok (secret cfg) now of
        Inl e \<Rightarrow> (Finished (Inl e), logger Err ''Refresh token error:'' w)
      | Inr decoded \<Rightarrow>
          (case getSession (sessionId decoded) now w of
             (Inl e, w1) \<Rightarrow> (Finished (Inl e), logger Err ''Refresh token error:'' w1)
           | (Inr None, w1) \<Rightarrow> (Finished (Inl SessionNotFound), w1)
           | (Inr (Some sess), w1) \<Rightarrow>
               (if sess_userId sess \<noteq> userId decoded
                then (Finished (Inl UserMismatch), w1)
                else (Checked decoded sess, w1))))"
| "refreshTokens_step cfg now uuid (Checked decoded sess) w =
     (let u = \<lparr>user_id = sess_userId sess,
               user_email = or_empty (sess_email sess),
               user_username = or_empty (sess_username sess),
               user_is_host = Some (or_false (sess_isHost sess)),
               user_is_verified = Some (or_false (sess_isVerified sess))\<rparr>
      in (case generateTokens cfg now uuid u (sess_deviceId sess) w of
            (Inl e, w2) \<Rightarrow> (Finished (Inl e), logger Err ''Refresh token error:'' w2)
          | (Inr tokens, w2) \<Rightarrow> (Issued decoded tokens, w2)))"
| "refreshTokens_step cfg now uuid (Issued decoded tokens) w =
     (case deleteSession (sessionId decoded) w of
        (Inl e, w3) \<Rightarrow> (Finished (Inl e), logger Err ''Refresh token error:'' w3)
      | (Inr _, w3) \<Rightarrow> (Finished (Inr (accessToken tokens, refreshToken tokens)), w3))"
| "refreshTokens_step cfg now uuid (Finished r) w = (Finished r, w)"

datatype caller = First | Second

fun interleave ::
  "jwt_config \<Rightarrow> timestamp \<Rightarrow> string \<Rightarrow> string \<Rightarrow> caller list
     \<Rightarrow> rotation \<times> rotation \<times> world \<Rightarrow> rotation \<times> rotation \<times> world" where
  "interleave cfg now uuidA uuidB [] st = st"
| "interleave cfg now uuidA uuidB (First # sched) (a, b, w) =
     (case refreshTokens_step cfg now uuidA a w of
        (a', w') \<Rightarrow> interleave cfg now uuidA uuidB sched (a', b, w'))"
| "interleave cfg now uuidA uuidB (Second # sched) (a, b, w) =
     (case refreshTokens_step cfg now uuidB b w of
        (b', w') \<Rightarrow> interleave cfg now uuidA uuidB sched (a, b', w'))"

subsection \<open>Calls in progress\<close>

text \<open>
  \<open>verifyToken\<close> gives up control at its two \<^verbatim>\<open>await\<close>s as well: after the session is
  read, and after it is written back with the new \<open>lastActivity\<close>. \<open>verifyToken_step\<close>
  runs one call from one \<^verbatim>\<open>await\<close> to the next; two steps in a row at the same time are
  \<open>verifyToken\<close> (lemma \<open>verifyToken_steps\<close>). Between the two steps the call holds the
  session it has read, and its second step writes that session whether or not the key
  still exists.
\<close>

datatype verification =
    VStart token
  | VRead jwt_payload session
  | VFinished "auth_error + jwt_payload"

fun verifyToken_step ::
  "jwt_config \<Rightarrow> timestamp \<Rightarrow> verification \<Rightarrow> world \<Rightarrow> verification \<times> world" where
  "verifyToken_step cfg now (VStart tok) w =
     (case jwt_verify tok (secret cfg) now of
        Inl e \<Rightarrow> (VFinished (Inl e), verifyToken_catch e w)
      | Inr decoded \<Rightarrow>
          (case getSession (sessionId decoded) now w of
             (Inl e, w1) \<Rightarrow> (VFinished (Inl e), verifyToken_catch e w1)
           | (Inr None, w1) \<Rightarrow>
               (VFinished (Inl SessionNotFound),
                logger Warn (''Session not found for token: '' @ sessionId decoded) w1)
           | (Inr (Some sess), w1) \<Rightarrow> (VRead decoded sess, w1)))"
| "verifyToken_step cfg now (VRead decoded sess) w =
     (case setSession (sessionId decoded) (sess\<lparr>lastActivity := now\<rparr>)
             (7 * 24 * 60 * 60) now w of
        (Inl e, w2) \<Rightarrow> (VFinished (Inl e), verifyToken_catch e w2)
      | (Inr _, w2) \<Rightarrow> (VFinished (Inr decoded), w2))"
| "verifyToken_step cfg now (VFinished r) w = (VFinished r, w)"






text \<open>
  The two payloads and the session record that a rotation of a refresh token with
  payload \<open>d\<close>, over the session record \<open>s\<close>, produces under the session id \<open>uuid\<close>.
\<close>

definition rotated_tokens ::
  "jwt_config \<Rightarrow> timestamp \<Rightarrow> string \<Rightarrow> jwt_payload \<Rightarrow> session \<Rightarrow> token \<times> token" where
  "rotated_tokens cfg now uuid d s =
     (JWT (secret cfg)
        \<lparr>userId = userId d, email = Some (or_empty (sess_email s)),
         username = Some (or_empty (sess_username s)),
         isHost = Some (or_false (sess_isHost s)),
         isVerified = Some (or_false (sess_isVerified s)),
         sessionId = uuid, deviceId = sess_deviceId s, iat = Some now,
         exp = Some (now + expiresIn cfg)\<rparr>,
      JWT (secret cfg)
        \<lparr>userId = userId d, email = None, username = None, isHost = None,
         isVerified = None, sessionId = uuid, deviceId = None, iat = Some now,
         exp = Some (now + refreshExpiresIn cfg)\<rparr>)"

definition rotated_session :: "timestamp \<Rightarrow> jwt_payload \<Rightarrow> session \<Rightarrow> session \<times> timestamp" where
  "rotated_session now d s =
     (\<lparr>sess_userId = userId d, sess_deviceId = sess_deviceId s, createdAt = now,
       lastActivity = now, sess_email = None, sess_username = None,
       sess_isHost = None, sess_isVerified = None\<rparr>, now + 7 * 24 * 60 * 60)"




section \<open>Basic facts\<close>

lemma healthy_keyspace_update [simp]: "healthy (w\<lparr>keyspace := k\<rparr>) = healthy w"
  by (simp add: healthy_def isReady_def)

lemma healthy_logger [simp]: "healthy (logger lvl msg w) = healthy w"
  by (simp add: healthy_def isReady_def logger_def)

lemma keyspace_logger [simp]: "keyspace (logger lvl msg w) = keyspace w"
  by (simp add: logger_def)

lemma live_logger [simp]: "live (logger lvl msg w) sid now = live w sid now"
  by (simp add: live_def)

lemma session_key_inj [simp]: "(session_key a = session_key b) = (a = b)"
  by (simp add: session_key_def)

lemma getSession_healthy:
  "healthy w \<Longrightarrow> getSession sid now w = (Inr (live w sid now), w)"
  by (simp add: healthy_def getSession_def client_command_def live_def)

lemma setSession_healthy:
  "healthy w \<Longrightarrow> setSession sid d ttl now w =
     (Inr (), w\<lparr>keyspace := (keyspace w)(session_key sid \<mapsto> (d, now + ttl))\<rparr>)"
  by (simp add: healthy_def setSession_def client_command_def)

lemma deleteSession_healthy:
  "healthy w \<Longrightarrow> deleteSession sid w =
     (Inr (), w\<lparr>keyspace := (keyspace w)(session_key sid := None)\<rparr>)"
  by (simp add: healthy_def deleteSession_def client_command_def)

lemma setSession_Inr:
  "setSession sid d ttl now w = (Inr x, w1) \<Longrightarrow>
     isReady w1 \<and> keyspace w1 = (keyspace w)(session_key sid \<mapsto> (d, now + ttl))
     \<and> faults w1 = tl (faults w) \<and> log_lines w1 = log_lines w"
  by (auto simp: setSession_def client_command_def isReady_def split: if_splits list.splits)

lemma deleteSession_Inr:
  "deleteSession sid w = (Inr x, w1) \<Longrightarrow>
     isReady w1 \<and> keyspace w1 = (keyspace w)(session_key sid := None)
     \<and> faults w1 = tl (faults w) \<and> log_lines w1 = log_lines w"
  by (auto simp: deleteSession_def client_command_def isReady_def split: if_splits list.splits)

lemma generateTokens_Inr:
  assumes "generateTokens cfg now uuid u device w = (Inr pair, w1)"
  shows "isReady w1"
    and "keyspace w1 = (keyspace w)(session_key uuid \<mapsto>
           (\<lparr>sess_userId = user_id u, sess_deviceId = device, createdAt = now,
             lastActivity = now, sess_email = None, sess_username = None,
             sess_isHost = None, sess_isVerified = None\<rparr>, now + 604800))"
    and "accessToken pair = JWT (secret cfg)
           \<lparr>userId = user_id u, email = Some (user_email u), username = Some (user_username u),
            isHost = Some (or_false (user_is_host u)),
            isVerified = Some (or_false (user_is_verified u)),
            sessionId = uuid, deviceId = device, iat = Some now,
            exp = Some (now + expiresIn cfg)\<rparr>"
    and "refreshToken pair = JWT (secret cfg)
           \<lparr>userId = user_id u, email = None, username = None, isHost = None,
            isVerified = None, sessionId = uuid, deviceId = None, iat = Some now,
            exp = Some (now + refreshExpiresIn cfg)\<rparr>"
    and "issued_sessionId pair = uuid"
    and "faults w1 = tl (faults w)"
  using assms
  by (auto simp: generateTokens_def jwt_sign_def Let_def
      split: prod.splits sum.splits dest: setSession_Inr)

lemma getSession_Inr:
  "getSession sid now w = (Inr r, w1) \<Longrightarrow>
     isReady w1 \<and> keyspace w1 = keyspace w \<and> r = live w sid now
     \<and> faults w1 = tl (faults w) \<and> log_lines w1 = log_lines w"
  by (auto simp: getSession_def client_command_def isReady_def live_def
      split: if_splits list.splits)

lemma verifyToken_live:
  assumes "healthy w" "jwt_verify tok (secret cfg) now = Inr d"
    and "live w (sessionId d) now = Some s"
  shows "verifyToken cfg now tok w =
     (Inr d, w\<lparr>keyspace := (keyspace w)(session_key (sessionId d) \<mapsto>
                 (s\<lparr>lastActivity := now\<rparr>, now + 604800))\<rparr>)"
  using assms by (simp add: verifyToken_def getSession_healthy setSession_healthy)



lemma generateTokens_healthy:
  assumes "healthy w"
  shows "generateTokens cfg now uuid u device w =
     (Inr \<lparr>accessToken = JWT (secret cfg) (access_payload now (expiresIn cfg) uuid u device),
           refreshToken = JWT (secret cfg)
             \<lparr>userId = user_id u, email = None, username = None, isHost = None,
              isVerified = None, sessionId = uuid, deviceId = None, iat = Some now,
              exp = Some (now + refreshExpiresIn cfg)\<rparr>,
           issued_sessionId = uuid\<rparr>,
      w\<lparr>keyspace := (keyspace w)(session_key uuid \<mapsto>
           (\<lparr>sess_userId = user_id u, sess_deviceId = device, createdAt = now,
             lastActivity = now, sess_email = None, sess_username = None,
             sess_isHost = None, sess_isVerified = None\<rparr>, now + 604800))\<rparr>)"
  using assms
  by (simp add: generateTokens_def setSession_healthy jwt_sign_def access_payload_def)

lemma refreshTokens_Inr:
  assumes "refreshTokens cfg now uuid tok w = (Inr (a, r), w2)"
  shows "\<exists>d s. jwt_verify tok (secret cfg) now = Inr d
           \<and> live w (sessionId d) now = Some s
           \<and> sess_userId s = userId d
           \<and> isReady w2
           \<and> faults w2 = tl (tl (tl (faults w)))
           \<and> keyspace w2 = ((keyspace w)(session_key uuid \<mapsto>
                (\<lparr>sess_userId = userId d, sess_deviceId = sess_deviceId s, createdAt = now,
                  lastActivity = now, sess_email = None, sess_username = None,
                  sess_isHost = None, sess_isVerified = None\<rparr>, now + 604800)))
                (session_key (sessionId d) := None)
           \<and> a = JWT (secret cfg)
                 \<lparr>userId = userId d, email = Some (or_empty (sess_email s)),
                  username = Some (or_empty (sess_username s)),
                  isHost = Some (or_false (sess_isHost s)),
                  isVerified = Some (or_false (sess_isVerified s)),
                  sessionId = uuid, deviceId = sess_deviceId s, iat = Some now,
                  exp = Some (now + expiresIn cfg)\<rparr>
           \<and> r = JWT (secret cfg)
                 \<lparr>userId = userId d, email = None, username = None, isHost = None,
                  isVerified = None, sessionId = uuid, deviceId = None, iat = Some now,
                  exp = Some (now + refreshExpiresIn cfg)\<rparr>"
proof -
  from assms obtain d where d: "jwt_verify tok (secret cfg) now = Inr d"
    by (auto simp: refreshTokens_def split: sum.splits)
  from assms d obtain so w1 where g: "getSession (sessionId d) now w = (Inr so, w1)"
    by (auto simp: refreshTokens_def split: sum.splits prod.splits)
  from assms d g obtain s where s: "so = Some s" and u: "sess_userId s = userId d"
    by (auto simp: refreshTokens_def split: option.splits if_splits)
  let ?u = "\<lparr>user_id = sess_userId s, user_email = or_empty (sess_email s),
             user_username = or_empty (sess_username s),
             user_is_host = Some (or_false (sess_isHost s)),
             user_is_verified = Some (or_false (sess_isVerified s))\<rparr>"
  from assms d g s u obtain pair w2' where
    gen: "generateTokens cfg now uuid ?u (sess_deviceId s) w1 = (Inr pair, w2')"
    by (auto simp: refreshTokens_def Let_def split: sum.splits prod.splits)
  from assms d g s u gen obtain x where
    del: "deleteSession (sessionId d) w2' = (Inr x, w2)"
      and a: "a = accessToken pair" and r: "r = refreshToken pair"
    by (auto simp: refreshTokens_def Let_def split: sum.splits prod.splits)
  note G = getSession_Inr [OF g]
  note N = generateTokens_Inr [OF gen]
  note D = deleteSession_Inr [OF del]
  show ?thesis
    using d s u G N D a r by (simp add: or_false_def)
qed

lemmas model_defs =
  generateTokens_def verifyToken_def refreshTokens_def revokeSession_def
  setSession_def getSession_def deleteSession_def isReady_def client_command_def
  session_key_def jwt_sign_def or_false_def or_empty_def logger_def verifyToken_catch_def

lemmas example_defs =
  example_config_def example_user_def example_world_def example_claims_A1_def
  example_claims_R1_def example_A1_def example_R1_def example_session1_def example_W1_def

lemma example_issue:
  "generateTokens example_config 0 ''s1'' example_user None example_world =
     (Inr \<lparr>accessToken = example_A1, refreshToken = example_R1, issued_sessionId = ''s1''\<rparr>,
      example_W1)"
  by (simp add: model_defs example_defs)

lemmas example2_defs =
  example_claims_A2_def example_claims_R2_def example_A2_def example_R2_def
  example_session2_def example_W2_def

lemma example_rotate:
  "refreshTokens example_config 10 ''s2'' example_R1 example_W1 =
     (Inr (example_A2, example_R2), example_W2)"
  by (simp add: model_defs example_defs example2_defs fun_upd_twist)

lemma verifyToken_errors:
  "fst (verifyToken cfg now tok w) = Inl e \<Longrightarrow>
     e \<in> {TokenMalformed, TokenInvalidSignature, TokenExpired, SessionNotFound,
          StoreUnavailable}"
  by (cases tok)
     (auto simp: verifyToken_def getSession_def setSession_def client_command_def
       split: sum.splits prod.splits option.splits if_splits list.splits)

lemma refreshTokens_errors:
  "fst (refreshTokens cfg now uuid tok w) = Inl e \<Longrightarrow>
     e \<in> {TokenMalformed, TokenInvalidSignature, TokenExpired, SessionNotFound,
          UserMismatch, StoreUnavailable}"
  by (cases tok)
     (auto simp: refreshTokens_def generateTokens_def getSession_def setSession_def
       deleteSession_def client_command_def Let_def
       split: sum.splits prod.splits option.splits if_splits list.splits)

lemma refreshTokens_InrE:
  assumes "refreshTokens cfg now uuid tok w = (Inr (a, r), w2)"
  obtains d s where
    "jwt_verify tok (secret cfg) now = Inr d"
    "live w (sessionId d) now = Some s"
    "sess_userId s = userId d"
    "isReady w2"
    "faults w2 = tl (tl (tl (faults w)))"
    "keyspace w2 = ((keyspace w)(session_key uuid \<mapsto>
                (\<lparr>sess_userId = userId d, sess_deviceId = sess_deviceId s, createdAt = now,
                  lastActivity = now, sess_email = None, sess_username = None,
                  sess_isHost = None, sess_isVerified = None\<rparr>, now + 604800)))
                (session_key (sessionId d) := None)"
    "a = JWT (secret cfg)
                 \<lparr>userId = userId d, email = Some (or_empty (sess_email s)),
                  username = Some (or_empty (sess_username s)),
                  isHost = Some (or_false (sess_isHost s)),
                  isVerified = Some (or_false (sess_isVerified s)),
                  sessionId = uuid, deviceId = sess_deviceId s, iat = Some now,
                  exp = Some (now + expiresIn cfg)\<rparr>"
    "r = JWT (secret cfg)
                 \<lparr>userId = userId d, email = None, username = None, isHost = None,
                  isVerified = None, sessionId = uuid, deviceId = None, iat = Some now,
                  exp = Some (now + refreshExpiresIn cfg)\<rparr>"
  using refreshTokens_Inr [OF assms] by blast

lemma store_plain_logger [simp]: "store_plain (logger lvl msg w) = store_plain w"
  by (simp add: store_plain_def)

lemma store_plain_setSession:
  "store_plain w \<Longrightarrow> plain_session d \<Longrightarrow> store_plain (snd (setSession sid d ttl now w))"
  by (auto simp: store_plain_def setSession_def client_command_def
      split: list.splits if_splits)

lemma store_plain_getSession:
  "store_plain w \<Longrightarrow> store_plain (snd (getSession sid now w))"
  by (auto simp: store_plain_def getSession_def client_command_def
      split: list.splits if_splits)

lemma getSession_plain:
  assumes "store_plain w" and "getSession sid now w = (Inr (Some s), w1)"
  shows "plain_session s"
proof -
  from getSession_Inr [OF assms(2)] have "live w sid now = Some s"
    by simp
  then obtain e where "keyspace w (session_key sid) = Some (s, e)"
    by (auto simp: live_def split: option.splits if_splits)
  with assms(1) show ?thesis
    unfolding store_plain_def by blast
qed

lemma store_plain_deleteSession:
  "store_plain w \<Longrightarrow> store_plain (snd (deleteSession sid w))"
  by (auto simp: store_plain_def deleteSession_def client_command_def
      split: list.splits if_splits)

lemma store_plain_generateTokens:
  assumes "store_plain w"
  shows "store_plain (snd (generateTokens cfg now uuid u device w))"
proof -
  let ?d = "\<lparr>sess_userId = user_id u, sess_deviceId = device,
                 createdAt = now, lastActivity = now,
                 sess_email = None, sess_username = None,
                 sess_isHost = None, sess_isVerified = None\<rparr>"
  have "plain_session ?d" by (simp add: plain_session_def)
  from store_plain_setSession [OF assms this, of uuid "7 * 24 * 60 * 60" now]
  show ?thesis
    by (cases "setSession uuid ?d (7 * 24 * 60 * 60) now w")
       (auto simp: generateTokens_def Let_def split: sum.splits)
qed

lemma store_plain_verifyToken:
  assumes "store_plain w"
  shows "store_plain (snd (verifyToken cfg now tok w))"
proof (cases "jwt_verify tok (secret cfg) now")
  case (Inl e)
  then show ?thesis using assms by (simp add: verifyToken_def verifyToken_catch_def)
next
  case (Inr d)
  obtain r w1 where g: "getSession (sessionId d) now w = (r, w1)"
    by (cases "getSession (sessionId d) now w")
  have p1: "store_plain w1"
    using store_plain_getSession [OF assms, of "sessionId d" now] g by simp
  show ?thesis
  proof (cases r)
    case (Inl e)
    with Inr g p1 show ?thesis by (simp add: verifyToken_def verifyToken_catch_def)
  next
    case so: (Inr so)
    show ?thesis
    proof (cases so)
      case None
      with Inr g so p1 show ?thesis by (simp add: verifyToken_def)
    next
      case (Some s)
      have "plain_session s"
        using getSession_plain [OF assms] g so Some by simp
      then have "plain_session (s\<lparr>lastActivity := now\<rparr>)"
        by (simp add: plain_session_def)
      from store_plain_setSession [OF p1 this, of "sessionId d" "7 * 24 * 60 * 60" now]
      show ?thesis
        using Inr g so Some
        by (cases "setSession (sessionId d) (s\<lparr>lastActivity := now\<rparr>) (7 * 24 * 60 * 60) now w1")
           (auto simp: verifyToken_def verifyToken_catch_def split: sum.splits)
    qed
  qed
qed

lemma store_plain_refreshTokens:
  assumes "store_plain w"
  shows "store_plain (snd (refreshTokens cfg now uuid tok w))"
proof (cases "jwt_verify tok (secret cfg) now")
  case (Inl e)
  then show ?thesis using assms by (simp add: refreshTokens_def)
next
  case (Inr d)
  obtain r w1 where g: "getSession (sessionId d) now w = (r, w1)"
    by (cases "getSession (sessionId d) now w")
  have p1: "store_plain w1"
    using store_plain_getSession [OF assms, of "sessionId d" now] g by simp
  show ?thesis
  proof (cases r)
    case (Inl e)
    with Inr g p1 show ?thesis by (simp add: refreshTokens_def)
  next
    case so: (Inr so)
    show ?thesis
    proof (cases so)
      case None
      with Inr g so p1 show ?thesis by (simp add: refreshTokens_def)
    next
      case (Some s)
      let ?u = "\<lparr>user_id = sess_userId s, user_email = or_empty (sess_email s),
             user_username = or_empty (sess_username s),
             user_is_host = Some (or_false (sess_isHost s)),
             user_is_verified = Some (or_false (sess_isVerified s))\<rparr>"
      obtain r2 w2 where gen: "generateTokens cfg now uuid ?u (sess_deviceId s) w1 = (r2, w2)"
        by (cases "generateTokens cfg now uuid ?u (sess_deviceId s) w1")
      have p2: "store_plain w2"
        using store_plain_generateTokens [OF p1, of cfg now uuid ?u "sess_deviceId s"] gen
        by simp
      obtain r3 w3 where del: "deleteSession (sessionId d) w2 = (r3, w3)"
        by (cases "deleteSession (sessionId d) w2")
      have p3: "store_plain w3"
        using store_plain_deleteSession [OF p2, of "sessionId d"] del by simp
      show ?thesis
      proof (cases "sess_userId s \<noteq> userId d")
        case True
        with Inr g so Some p1 show ?thesis by (simp add: refreshTokens_def)
      next
        case False
        with Inr g so Some gen del p2 p3 show ?thesis
          by (cases r2; cases r3) (simp_all add: refreshTokens_def)
      qed
    qed
  qed
qed

lemma reachable_store_plain: "reachable w \<Longrightarrow> store_plain w"
proof (induct rule: reachable.induct)
  case (start w)
  then show ?case by (simp add: store_plain_def)
next
  case (environment w w')
  then show ?case by (simp add: store_plain_def)
next
  case (issue w cfg now uuid u device)
  then show ?case by (simp add: store_plain_generateTokens)
next
  case (verify w cfg now tok)
  then show ?case by (simp add: store_plain_verifyToken)
next
  case (rotate w cfg now uuid tok)
  then show ?case by (simp add: store_plain_refreshTokens)
next
  case (revoke w sid)
  then show ?case by (simp add: revokeSession_def store_plain_deleteSession)
next
  case (revoke_all w uid)
  then show ?case by (simp add: revokeAllUserSessions_def)
qed

lemma refreshTokens_steps:
  "interleave cfg now uuidA uuidB [First, First, First] (Start tok, b, w) =
     (Finished (fst (refreshTokens cfg now uuidA tok w)), b,
      snd (refreshTokens cfg now uuidA tok w))"
proof (cases "jwt_verify tok (secret cfg) now")
  case (Inl e)
  then show ?thesis by (simp add: refreshTokens_def)
next
  case (Inr d)
  obtain r w1 where g: "getSession (sessionId d) now w = (r, w1)"
    by (cases "getSession (sessionId d) now w")
  show ?thesis
  proof (cases r)
    case (Inl e)
    with Inr g show ?thesis by (simp add: refreshTokens_def)
  next
    case so: (Inr so)
    show ?thesis
    proof (cases so)
      case None
      with Inr g so show ?thesis by (simp add: refreshTokens_def)
    next
      case (Some s)
      let ?u = "\<lparr>user_id = sess_userId s, user_email = or_empty (sess_email s),
             user_username = or_empty (sess_username s),
             user_is_host = Some (or_false (sess_isHost s)),
             user_is_verified = Some (or_false (sess_isVerified s))\<rparr>"
      obtain r2 w2 where gen: "generateTokens cfg now uuidA ?u (sess_deviceId s) w1 = (r2, w2)"
        by (cases "generateTokens cfg now uuidA ?u (sess_deviceId s) w1")
      obtain r3 w3 where del: "deleteSession (sessionId d) w2 = (r3, w3)"
        by (cases "deleteSession (sessionId d) w2")
      show ?thesis
      proof (cases "sess_userId s \<noteq> userId d")
        case True
        with Inr g so Some show ?thesis by (simp add: refreshTokens_def)
      next
        case False
        with Inr g so Some gen del show ?thesis
          by (cases r2; cases r3) (simp_all add: refreshTokens_def)
      qed
    qed
  qed
qed

lemma refreshTokens_step_no_generation_mismatch:
  assumes "a \<noteq> Finished (Inl GenerationMismatch)"
  shows "fst (refreshTokens_step cfg now uuid a w) \<noteq> Finished (Inl GenerationMismatch)"
proof (cases a)
  case (Start tok)
  then show ?thesis
    by (cases tok)
       (auto simp: getSession_def client_command_def
         split: sum.splits prod.splits option.splits if_splits list.splits)
next
  case (Checked d s)
  then show ?thesis
    by (auto simp: Let_def generateTokens_def setSession_def client_command_def
        split: sum.splits prod.splits if_splits list.splits)
next
  case (Issued d p)
  then show ?thesis
    by (auto simp: deleteSession_def client_command_def
        split: sum.splits prod.splits if_splits list.splits)
next
  case (Finished r)
  with assms show ?thesis by simp
qed

lemma interleave_no_generation_mismatch:
  assumes "a \<noteq> Finished (Inl GenerationMismatch)" "b \<noteq> Finished (Inl GenerationMismatch)"
    and "interleave cfg now uuidA uuidB sched (a, b, w) = (a', b', w')"
  shows "a' \<noteq> Finished (Inl GenerationMismatch) \<and> b' \<noteq> Finished (Inl GenerationMismatch)"
  using assms
proof (induction sched arbitrary: a b w)
  case Nil
  then show ?case by simp
next
  case (Cons c sched)
  show ?case
  proof (cases c)
    case First
    obtain a1 w1 where s: "refreshTokens_step cfg now uuidA a w = (a1, w1)"
      by (cases "refreshTokens_step cfg now uuidA a w")
    then have "a1 \<noteq> Finished (Inl GenerationMismatch)"
      using refreshTokens_step_no_generation_mismatch [OF Cons.prems(1), of cfg now uuidA w]
      by simp
    moreover have "interleave cfg now uuidA uuidB sched (a1, b, w1) = (a', b', w')"
      using Cons.prems(3) First s by simp
    ultimately show ?thesis
      using Cons.IH Cons.prems(2) by blast
  next
    case Second
    obtain b1 w1 where s: "refreshTokens_step cfg now uuidB b w = (b1, w1)"
      by (cases "refreshTokens_step cfg now uuidB b w")
    then have "b1 \<noteq> Finished (Inl GenerationMismatch)"
      using refreshTokens_step_no_generation_mismatch [OF Cons.prems(2), of cfg now uuidB w]
      by simp
    moreover have "interleave cfg now uuidA uuidB sched (a, b1, w1) = (a', b', w')"
      using Cons.prems(3) Second s by simp
    ultimately show ?thesis
      using Cons.IH Cons.prems(1) by blast
  qed
qed



lemma refreshTokens_step_payload:
  "refreshTokens_step cfg now uuid (Start (JWT k d)) w = (Checked d' s, w') \<Longrightarrow> d' = d"
  "refreshTokens_step cfg now uuid (Checked d s) w = (Issued d' p, w') \<Longrightarrow> d' = d"
  by (auto simp: Let_def split: sum.splits prod.splits option.splits if_splits)

lemma verifyToken_steps:
  "(case verifyToken_step cfg now (VStart tok) w of
      (v, w1) \<Rightarrow> verifyToken_step cfg now v w1) =
   (VFinished (fst (verifyToken cfg now tok w)), snd (verifyToken cfg now tok w))"
proof (cases "jwt_verify tok (secret cfg) now")
  case (Inl e)
  then show ?thesis by (simp add: verifyToken_def)
next
  case (Inr d)
  obtain r w1 where g: "getSession (sessionId d) now w = (r, w1)"
    by (cases "getSession (sessionId d) now w")
  show ?thesis
  proof (cases r)
    case (Inl e)
    with Inr g show ?thesis by (simp add: verifyToken_def)
  next
    case so: (Inr so)
    show ?thesis
    proof (cases so)
      case None
      with Inr g so show ?thesis by (simp add: verifyToken_def)
    next
      case (Some s)
      obtain r2 w2 where
        st: "setSession (sessionId d) (s\<lparr>lastActivity := now\<rparr>) (7 * 24 * 60 * 60) now w1
               = (r2, w2)"
        by (cases "setSession (sessionId d) (s\<lparr>lastActivity := now\<rparr>)
                     (7 * 24 * 60 * 60) now w1")
      with Inr g so Some show ?thesis
        by (cases r2) (simp_all add: verifyToken_def)
    qed
  qed
qed













lemma schedule_length:
  "length sched = count_list sched First + count_list sched Second"
proof (induction sched)
  case Nil
  then show ?case by simp
next
  case (Cons c sched)
  then show ?case by (cases c) simp_all
qed

lemma refreshTokens_step_issue_eq:
  assumes "healthy w" and "sess_userId s = userId d"
  shows "refreshTokens_step cfg now uuid (Checked d s) w =
     (Issued d \<lparr>accessToken = fst (rotated_tokens cfg now uuid d s),
                refreshToken = snd (rotated_tokens cfg now uuid d s),
                issued_sessionId = uuid\<rparr>,
      w\<lparr>keyspace := (keyspace w)(session_key uuid \<mapsto> rotated_session now d s)\<rparr>)"
  using assms
  by (simp add: generateTokens_healthy access_payload_def or_false_def rotated_tokens_def
      rotated_session_def)

lemma refreshTokens_step_delete_eq:
  assumes "healthy w"
  shows "refreshTokens_step cfg now uuid (Issued d p) w =
     (Finished (Inr (accessToken p, refreshToken p)),
      w\<lparr>keyspace := (keyspace w)(session_key (sessionId d) := None)\<rparr>)"
  using assms by (simp add: deleteSession_healthy)

section \<open>Issue, then verify\<close>

text \<open>
  Claim C4. When \<open>generateTokens\<close> has returned a pair and the store keeps answering,
  \<open>verifyToken\<close> on the returned access token succeeds at every time before the token's
  expiry and the session key's expiry (in particular at the time of issue, when
  \<open>expiresIn\<close> is positive), and the payload it returns carries the user id that was
  issued and the new session id.
\<close>

theorem issue_then_verify:
  assumes "generateTokens cfg t1 uuid u device w = (Inr pair, w1)"
    and "faults w1 = []"
    and "t2 < t1 + expiresIn cfg"
    and "t2 < t1 + 7 * 24 * 60 * 60"
  shows "\<exists>p w2. verifyToken cfg t2 (accessToken pair) w1 = (Inr p, w2)
           \<and> userId p = user_id u \<and> sessionId p = uuid"
proof -
  note N = generateTokens_Inr [OF assms(1)]
  have h: "healthy w1"
    using N(1) assms(2) by (simp add: healthy_def)
  have v: "jwt_verify (accessToken pair) (secret cfg) t2 =
             Inr (access_payload t1 (expiresIn cfg) uuid u device)"
    using N(3) assms(3) by (simp add: access_payload_def)
  have l: "live w1 (sessionId (access_payload t1 (expiresIn cfg) uuid u device)) t2 =
             Some \<lparr>sess_userId = user_id u, sess_deviceId = device, createdAt = t1,
               lastActivity = t1, sess_email = None, sess_username = None,
               sess_isHost = None, sess_isVerified = None\<rparr>"
    using N(2) assms(4) by (simp add: live_def access_payload_def)
  show ?thesis
    using verifyToken_live [OF h v l] by (simp add: access_payload_def)
qed

theorem issue_then_verify_witness:
  "generateTokens example_config 0 ''s1'' example_user None example_world =
     (Inr \<lparr>accessToken = example_A1, refreshToken = example_R1, issued_sessionId = ''s1''\<rparr>,
      example_W1)
   \<and> faults example_W1 = []
   \<and> (0::nat) < 0 + expiresIn example_config
   \<and> (0::nat) < 0 + 7 * 24 * 60 * 60
   \<and> (\<exists>p w2. verifyToken example_config 0 example_A1 example_W1 = (Inr p, w2)
          \<and> userId p = ''u1'' \<and> sessionId p = ''s1'')"
proof -
  have h1: "generateTokens example_config 0 ''s1'' example_user None example_world =
     (Inr \<lparr>accessToken = example_A1, refreshToken = example_R1, issued_sessionId = ''s1''\<rparr>,
      example_W1)"
    by (rule example_issue)
  have h2: "faults example_W1 = []"
    by (simp add: example_defs)
  have h3: "(0::nat) < 0 + expiresIn example_config"
    by (simp add: example_defs)
  have h4: "(0::nat) < 0 + 7 * 24 * 60 * 60"
    by simp
  show ?thesis
    using issue_then_verify [OF h1 h2 h3 h4] h1 h2 h3 h4
    by (simp add: example_user_def)
qed

section \<open>Revoking one session\<close>




section \<open>Revoking all sessions of a user\<close>

text \<open>
  Claim C8. For every user id and every world, \<open>revokeAllUserSessions\<close> leaves the
  session store as it was: the keyspace, the connection state and the pending command
  outcomes are unchanged, every session lookup answers as before, and the only effect is
  one more line in the log.
\<close>

theorem revokeAllUserSessions_store_unchanged:
  "keyspace (revokeAllUserSessions uid w) = keyspace w
   \<and> client_present (revokeAllUserSessions uid w) = client_present w
   \<and> isConnected (revokeAllUserSessions uid w) = isConnected w
   \<and> faults (revokeAllUserSessions uid w) = faults w
   \<and> fst (getSession sid now (revokeAllUserSessions uid w)) = fst (getSession sid now w)
   \<and> length (log_lines (revokeAllUserSessions uid w)) = Suc (length (log_lines w))"
  by (simp add: revokeAllUserSessions_def logger_def getSession_def isReady_def
      client_command_def split: list.split)

section \<open>The activity timestamp\<close>

text \<open>
  Claim C6, as the code has it. \<open>verifyToken\<close> awaits the write of \<open>lastActivity\<close>
  inside its \<^verbatim>\<open>try\<close> block. For a token that passes \<^verbatim>\<open>jwt.verify\<close> and whose session
  the store returns, the result follows the outcome of that write: the payload of the
  token when the write resolves, a failure when it rejects.
\<close>

theorem verifyToken_activity_write:
  assumes "isReady w"
    and "jwt_verify tok (secret cfg) now = Inr d"
    and "keyspace w (session_key (sessionId d)) = Some (s, e)"
    and "now < e"
    and "client_command w = (False, w1)"
    and "client_command w1 = (rejected, w2)"
  shows "fst (verifyToken cfg now tok w) = (if rejected then Inl StoreUnavailable else Inr d)"
proof -
  have k: "keyspace w1 = keyspace w" and r: "isReady w1"
    using assms(1,5) by (auto simp: client_command_def isReady_def split: list.splits)
  have g: "getSession (sessionId d) now w = (Inr (Some s), w1)"
    using assms(1,3,4,5) k by (simp add: getSession_def)
  obtain w3 where
    "setSession (sessionId d) (s\<lparr>lastActivity := now\<rparr>) (7 * 24 * 60 * 60) now w1
       = (if rejected then Inl StoreUnavailable else Inr (), w3)"
    using r assms(6) by (cases rejected) (auto simp: setSession_def)
  then show ?thesis
    using assms(2) g by (simp add: verifyToken_def)
qed

theorem verifyToken_activity_write_witness:
  "isReady example_W1
   \<and> jwt_verify example_A1 (secret example_config) 10 = Inr example_claims_A1
   \<and> keyspace example_W1 (session_key (sessionId example_claims_A1))
       = Some (example_session1, 604800)
   \<and> (10::nat) < 604800
   \<and> client_command example_W1 = (False, example_W1)
   \<and> fst (verifyToken example_config 10 example_A1 example_W1) = Inr example_claims_A1"
proof -
  have h1: "isReady example_W1"
    by (simp add: isReady_def example_defs)
  have h2: "jwt_verify example_A1 (secret example_config) 10 = Inr example_claims_A1"
    by (simp add: example_defs)
  have h3: "keyspace example_W1 (session_key (sessionId example_claims_A1))
              = Some (example_session1, 604800)"
    by (simp add: session_key_def example_defs)
  have h4: "(10::nat) < 604800"
    by simp
  have h5: "client_command example_W1 = (False, example_W1)"
    by (simp add: client_command_def example_defs)
  show ?thesis
    using verifyToken_activity_write [OF h1 h2 h3 h4 h5 h5] h1 h2 h3 h4 h5
    by simp
qed

text \<open>
  Claim C6, as stated, fails: the session of \<open>example_A1\<close> is in the store and is read,
  the write of the activity timestamp rejects, and \<open>verifyToken\<close> fails.
\<close>

theorem verifyToken_activity_write_counterexample:
  "jwt_verify example_A1 (secret example_config) 10 = Inr example_claims_A1
   \<and> fst (getSession ''s1'' 10 (example_W1\<lparr>faults := [False, True]\<rparr>))
       = Inr (Some example_session1)
   \<and> fst (verifyToken example_config 10 example_A1 (example_W1\<lparr>faults := [False, True]\<rparr>))
       = Inl StoreUnavailable
   \<and> fst (verifyToken example_config 10 example_A1 (example_W1\<lparr>faults := [False, True]\<rparr>))
       \<noteq> Inr example_claims_A1"
  by (simp add: model_defs example_defs)

section \<open>Rotation checks the owner of the session\<close>

text \<open>
  Claim C10. For a refresh token that passes \<^verbatim>\<open>jwt.verify\<close> and whose session key is
  in the store, \<open>refreshTokens\<close> returns no tokens whenever the stored \<open>userId\<close> differs
  from the token's; when the store answers and the key has not expired, the failure is
  the user-mismatch branch and the world is left as it was.
\<close>

theorem refreshTokens_user_mismatch:
  assumes "jwt_verify tok (secret cfg) now = Inr d"
    and "keyspace w (session_key (sessionId d)) = Some (s, e)"
    and "sess_userId s \<noteq> userId d"
  shows "isl (fst (refreshTokens cfg now uuid tok w))
         \<and> (healthy w \<and> now < e
              \<longrightarrow> refreshTokens cfg now uuid tok w = (Inl UserMismatch, w))"
proof -
  have a: "isl (fst (refreshTokens cfg now uuid tok w))"
  proof (cases "getSession (sessionId d) now w")
    case (Pair r w1)
    show ?thesis
    proof (cases r)
      case (Inl err)
      with Pair assms(1) show ?thesis by (simp add: refreshTokens_def)
    next
      case (Inr so)
      with Pair have "so = live w (sessionId d) now" using getSession_Inr by blast
      then have "so = None \<or> so = Some s"
        using assms(2) by (simp add: live_def)
      with Pair Inr assms(1,3) show ?thesis by (auto simp: refreshTokens_def)
    qed
  qed
  have b: "refreshTokens cfg now uuid tok w = (Inl UserMismatch, w)"
    if "healthy w" "now < e"
  proof -
    have "live w (sessionId d) now = Some s"
      using assms(2) that(2) by (simp add: live_def)
    then show ?thesis
      using assms(1,3) that(1) by (simp add: refreshTokens_def getSession_healthy)
  qed
  from a b show ?thesis by blast
qed

theorem refreshTokens_user_mismatch_witness:
  "jwt_verify (JWT (secret example_config) (example_claims_R1\<lparr>userId := ''u2''\<rparr>))
      (secret example_config) 10 = Inr (example_claims_R1\<lparr>userId := ''u2''\<rparr>)
   \<and> keyspace example_W1 (session_key (sessionId (example_claims_R1\<lparr>userId := ''u2''\<rparr>)))
       = Some (example_session1, 604800)
   \<and> sess_userId example_session1 \<noteq> userId (example_claims_R1\<lparr>userId := ''u2''\<rparr>)
   \<and> healthy example_W1 \<and> (10::nat) < 604800
   \<and> isl (fst (refreshTokens example_config 10 ''s2''
                 (JWT (secret example_config) (example_claims_R1\<lparr>userId := ''u2''\<rparr>))
                 example_W1))
   \<and> refreshTokens example_config 10 ''s2''
        (JWT (secret example_config) (example_claims_R1\<lparr>userId := ''u2''\<rparr>)) example_W1
       = (Inl UserMismatch, example_W1)"
proof -
  have h1: "jwt_verify (JWT (secret example_config) (example_claims_R1\<lparr>userId := ''u2''\<rparr>))
      (secret example_config) 10 = Inr (example_claims_R1\<lparr>userId := ''u2''\<rparr>)"
    by (simp add: example_defs)
  have h2: "keyspace example_W1
              (session_key (sessionId (example_claims_R1\<lparr>userId := ''u2''\<rparr>)))
              = Some (example_session1, 604800)"
    by (simp add: session_key_def example_defs)
  have h3: "sess_userId example_session1 \<noteq> userId (example_claims_R1\<lparr>userId := ''u2''\<rparr>)"
    by (simp add: example_defs)
  have h4: "healthy example_W1"
    by (simp add: healthy_def isReady_def example_defs)
  have h5: "(10::nat) < 604800"
    by simp
  show ?thesis
    using refreshTokens_user_mismatch [where uuid = "''s2''", OF h1 h2 h3] h1 h2 h3 h4 h5
    by simp
qed

section \<open>A refresh token presented as an access token\<close>

text \<open>
  Claim C2, as the code has it. Tokens carry no kind discriminator and \<open>verifyToken\<close>
  checks none. For every issued pair, while the store answers and before the refresh
  token and the session key expire, \<open>verifyToken\<close> on the refresh token succeeds; the
  payload it returns carries the user id and the session id and none of \<open>email\<close>,
  \<open>username\<close>, \<open>isHost\<close>, \<open>isVerified\<close>. The result is never a kind mismatch.
\<close>

theorem verify_accepts_refresh_token:
  assumes "generateTokens cfg t1 uuid u device w = (Inr pair, w1)"
    and "faults w1 = []"
    and "t2 < t1 + refreshExpiresIn cfg"
    and "t2 < t1 + 7 * 24 * 60 * 60"
  shows "(\<exists>p w2. verifyToken cfg t2 (refreshToken pair) w1 = (Inr p, w2)
            \<and> userId p = user_id u \<and> sessionId p = uuid
            \<and> email p = None \<and> username p = None \<and> isHost p = None \<and> isVerified p = None)
         \<and> fst (verifyToken cfg t2 (refreshToken pair) w1) \<noteq> Inl TokenKindMismatch"
proof -
  note N = generateTokens_Inr [OF assms(1)]
  let ?p = "\<lparr>userId = user_id u, email = None, username = None, isHost = None,
            isVerified = None, sessionId = uuid, deviceId = None, iat = Some t1,
            exp = Some (t1 + refreshExpiresIn cfg)\<rparr>"
  have h: "healthy w1"
    using N(1) assms(2) by (simp add: healthy_def)
  have v: "jwt_verify (refreshToken pair) (secret cfg) t2 = Inr ?p"
    using N(4) assms(3) by simp
  have l: "live w1 (sessionId ?p) t2 =
             Some \<lparr>sess_userId = user_id u, sess_deviceId = device, createdAt = t1,
               lastActivity = t1, sess_email = None, sess_username = None,
               sess_isHost = None, sess_isVerified = None\<rparr>"
    using N(2) assms(4) by (simp add: live_def)
  show ?thesis
    using verifyToken_live [OF h v l] by simp
qed

theorem verify_accepts_refresh_token_witness:
  "generateTokens example_config 0 ''s1'' example_user None example_world =
     (Inr \<lparr>accessToken = example_A1, refreshToken = example_R1, issued_sessionId = ''s1''\<rparr>,
      example_W1)
   \<and> faults example_W1 = []
   \<and> (5::nat) < 0 + refreshExpiresIn example_config
   \<and> (5::nat) < 0 + 7 * 24 * 60 * 60
   \<and> (\<exists>p w2. verifyToken example_config 5 example_R1 example_W1 = (Inr p, w2)
          \<and> userId p = ''u1'' \<and> sessionId p = ''s1''
          \<and> email p = None \<and> username p = None \<and> isHost p = None \<and> isVerified p = None)
   \<and> fst (verifyToken example_config 5 example_R1 example_W1) \<noteq> Inl TokenKindMismatch"
proof -
  have h1: "generateTokens example_config 0 ''s1'' example_user None example_world =
     (Inr \<lparr>accessToken = example_A1, refreshToken = example_R1, issued_sessionId = ''s1''\<rparr>,
      example_W1)"
    by (rule example_issue)
  have h2: "faults example_W1 = []"
    by (simp add: example_defs)
  have h3: "(5::nat) < 0 + refreshExpiresIn example_config"
    by (simp add: example_defs)
  have h4: "(5::nat) < 0 + 7 * 24 * 60 * 60"
    by simp
  show ?thesis
    using verify_accepts_refresh_token [OF h1 h2 h3 h4] h1 h2 h3 h4
    by (simp add: example_user_def)
qed

text \<open>
  Claim C2, as stated, fails: \<open>verifyToken\<close> accepts the refresh token of the pair that
  was just issued.
\<close>

theorem verify_refresh_token_counterexample:
  "generateTokens example_config 0 ''s1'' example_user None example_world =
     (Inr \<lparr>accessToken = example_A1, refreshToken = example_R1, issued_sessionId = ''s1''\<rparr>,
      example_W1)
   \<and> fst (verifyToken example_config 0 example_R1 example_W1) = Inr example_claims_R1
   \<and> fst (verifyToken example_config 0 example_R1 example_W1) \<noteq> Inl TokenKindMismatch"
  by (simp add: model_defs example_defs)

section \<open>The old access token after a rotation\<close>




section \<open>A refresh token presented twice\<close>



section \<open>The claims of a rotated access token\<close>

text \<open>
  Claim C9. In every reachable world, a successful rotation returns an access token
  whose \<open>email\<close> and \<open>username\<close> are the empty string and whose \<open>isHost\<close> and
  \<open>isVerified\<close> are false, whatever the attributes of the user: every session record in
  a reachable world is plain, and \<open>refreshTokens\<close> builds the user from the session record
  alone.
\<close>

theorem rotation_resets_claims:
  assumes "reachable w"
    and "refreshTokens cfg now uuid tok w = (Inr (a, r), w')"
  shows "\<exists>p. a = JWT (secret cfg) p \<and> email p = Some '''' \<and> username p = Some ''''
           \<and> isHost p = Some False \<and> isVerified p = Some False"
  using assms(2)
proof (rule refreshTokens_InrE)
  fix d :: jwt_payload and s :: session
  assume l: "live w (sessionId d) now = Some s"
    and a: "a = JWT (secret cfg)
                 \<lparr>userId = userId d, email = Some (or_empty (sess_email s)),
                  username = Some (or_empty (sess_username s)),
                  isHost = Some (or_false (sess_isHost s)),
                  isVerified = Some (or_false (sess_isVerified s)),
                  sessionId = uuid, deviceId = sess_deviceId s, iat = Some now,
                  exp = Some (now + expiresIn cfg)\<rparr>"
  from l obtain e where "keyspace w (session_key (sessionId d)) = Some (s, e)"
    by (auto simp: live_def split: option.splits if_splits)
  with reachable_store_plain [OF assms(1)] have "plain_session s"
    unfolding store_plain_def by blast
  with a show ?thesis
    by (simp add: plain_session_def or_empty_def or_false_def)
qed

theorem rotation_resets_claims_witness:
  "reachable example_W1
   \<and> user_is_host example_user = Some True \<and> user_is_verified example_user = Some True
   \<and> refreshTokens example_config 10 ''s2'' example_R1 example_W1 =
       (Inr (example_A2, example_R2), example_W2)
   \<and> (\<exists>p. example_A2 = JWT (secret example_config) p \<and> email p = Some ''''
          \<and> username p = Some '''' \<and> isHost p = Some False \<and> isVerified p = Some False)"
proof -
  have "reachable example_world"
    by (rule reachable.start) (simp add: example_defs)
  from reachable.issue [OF this, of example_config 0 "''s1''" example_user None]
  have h1: "reachable example_W1"
    by (simp add: example_issue)
  have h2: "refreshTokens example_config 10 ''s2'' example_R1 example_W1 =
       (Inr (example_A2, example_R2), example_W2)"
    by (rule example_rotate)
  show ?thesis
    using rotation_resets_claims [OF h1 h2] h1 h2
    by (simp add: example_user_def)
qed

section \<open>Two rotations of the same refresh token\<close>

text \<open>
  Claim C7, as the code has it. The session read, the write of the new session and the
  delete of the old one are three store commands with nothing that makes them atomic.
  Let two calls present the same valid refresh token over a store that answers, each
  drawing a session id of its own, and let each run its three steps, in any order. When
  one call takes all its steps before the other takes its first, that call succeeds and
  the other fails on the session-not-found branch. In each of the eighteen other orders,
  which are those where both calls read the session before either deletes it, both
  calls succeed, and the store then holds the two new sessions and not the old one.
\<close>

theorem concurrent_rotations:
  assumes "healthy w"
    and "jwt_verify tok (secret cfg) now = Inr d"
    and "keyspace w (session_key (sessionId d)) = Some (s, e)"
    and "now < e"
    and "sess_userId s = userId d"
    and "uuidA \<noteq> sessionId d" and "uuidB \<noteq> sessionId d" and "uuidA \<noteq> uuidB"
    and "count_list sched First = 3" and "count_list sched Second = 3"
  shows "interleave cfg now uuidA uuidB sched (Start tok, Start tok, w) =
     (if sched = [First, First, First, Second, Second, Second] then
        (Finished (Inr (rotated_tokens cfg now uuidA d s)),
         Finished (Inl SessionNotFound),
         w\<lparr>keyspace := ((keyspace w)(session_key uuidA \<mapsto> rotated_session now d s))
                          (session_key (sessionId d) := None)\<rparr>)
      else if sched = [Second, Second, Second, First, First, First] then
        (Finished (Inl SessionNotFound),
         Finished (Inr (rotated_tokens cfg now uuidB d s)),
         w\<lparr>keyspace := ((keyspace w)(session_key uuidB \<mapsto> rotated_session now d s))
                          (session_key (sessionId d) := None)\<rparr>)
      else
        (Finished (Inr (rotated_tokens cfg now uuidA d s)),
         Finished (Inr (rotated_tokens cfg now uuidB d s)),
         w\<lparr>keyspace := ((keyspace w)(session_key uuidA \<mapsto> rotated_session now d s,
                                       session_key uuidB \<mapsto> rotated_session now d s))
                          (session_key (sessionId d) := None)\<rparr>))"
proof -
  have "length sched = 6"
    using schedule_length [of sched] assms(9,10) by simp
  then obtain c1 c2 c3 c4 c5 c6 where sched: "sched = [c1, c2, c3, c4, c5, c6]"
    by (auto simp: eval_nat_numeral length_Suc_conv)
  have rd_live: "refreshTokens_step cfg now u (Start tok) w' = (Checked d s, w')"
    if "healthy w'" "keyspace w' (session_key (sessionId d)) = Some (s, e)" for u w'
    using that assms(2,4,5) by (simp add: getSession_healthy live_def)
  have rd_gone: "refreshTokens_step cfg now u (Start tok) w' = (Finished (Inl SessionNotFound), w')"
    if "healthy w'" "keyspace w' (session_key (sessionId d)) = None" for u w'
    using that assms(2) by (simp add: getSession_healthy live_def)
  note iss = refreshTokens_step_issue_eq [OF _ assms(5)]
  note del = refreshTokens_step_delete_eq
  have fin: "refreshTokens_step cfg now u (Finished r) w' = (Finished r, w')" for u r w'
    by simp
  have ne: "sessionId d \<noteq> uuidA" "sessionId d \<noteq> uuidB" "uuidB \<noteq> uuidA"
    using assms(6,7,8) by auto
  show ?thesis
    unfolding sched
    using assms(9,10) [unfolded sched] assms(1,3,6,7,8) ne
    by (cases c1; cases c2; cases c3; cases c4; cases c5; cases c6)
       (simp_all add: rd_live rd_gone iss del fin fun_upd_twist del: refreshTokens_step.simps)
qed
theorem concurrent_rotations_witness:
  "healthy example_W1
   \<and> jwt_verify example_R1 (secret example_config) 10 = Inr example_claims_R1
   \<and> keyspace example_W1 (session_key (sessionId example_claims_R1))
       = Some (example_session1, 604800)
   \<and> (10::nat) < 604800
   \<and> sess_userId example_session1 = userId example_claims_R1
   \<and> ''s2'' \<noteq> sessionId example_claims_R1 \<and> ''s3'' \<noteq> sessionId example_claims_R1
   \<and> ''s2'' \<noteq> ''s3''
   \<and> count_list [First, Second, First, First, Second, Second] First = 3
   \<and> count_list [First, Second, First, First, Second, Second] Second = 3
   \<and> interleave example_config 10 ''s2'' ''s3'' [First, Second, First, First, Second, Second]
         (Start example_R1, Start example_R1, example_W1)
       = (Finished (Inr (rotated_tokens example_config 10 ''s2''
                           example_claims_R1 example_session1)),
          Finished (Inr (rotated_tokens example_config 10 ''s3''
                           example_claims_R1 example_session1)),
          example_W1\<lparr>keyspace :=
            ((keyspace example_W1)
               (session_key ''s2'' \<mapsto> rotated_session 10 example_claims_R1 example_session1,
                session_key ''s3'' \<mapsto> rotated_session 10 example_claims_R1 example_session1))
            (session_key (sessionId example_claims_R1) := None)\<rparr>)"
proof -
  have h1: "healthy example_W1"
    by (simp add: healthy_def isReady_def example_defs)
  have h2: "jwt_verify example_R1 (secret example_config) 10 = Inr example_claims_R1"
    by (simp add: example_defs)
  have h3: "keyspace example_W1 (session_key (sessionId example_claims_R1))
              = Some (example_session1, 604800)"
    by (simp add: session_key_def example_defs)
  have h4: "(10::nat) < 604800"
    by simp
  have h5: "sess_userId example_session1 = userId example_claims_R1"
    by (simp add: example_defs)
  have h6: "''s2'' \<noteq> sessionId example_claims_R1"
    by (simp add: example_defs)
  have h7: "''s3'' \<noteq> sessionId example_claims_R1"
    by (simp add: example_defs)
  have h8: "''s2'' \<noteq> ''s3''"
    by simp
  have h9: "count_list [First, Second, First, First, Second, Second] First = 3"
    by simp
  have h10: "count_list [First, Second, First, First, Second, Second] Second = 3"
    by simp
  show ?thesis
    using concurrent_rotations [OF h1 h2 h3 h4 h5 h6 h7 h8 h9 h10] h1 h2 h3 h4 h5 h6 h7 h8 h9 h10
    by simp
qed

text \<open>
  Claim C7, as stated, fails: both calls read the session \<open>s1\<close> before the first
  deletes it, and both return a new pair.
\<close>

theorem concurrent_rotations_counterexample:
  "jwt_verify example_R1 (secret example_config) 10 = Inr example_claims_R1
   \<and> fst (getSession ''s1'' 10 example_W1) = Inr (Some example_session1)
   \<and> fst (interleave example_config 10 ''s2'' ''s3''
             [First, Second, First, First, Second, Second]
             (Start example_R1, Start example_R1, example_W1))
       = Finished (Inr (example_A2, example_R2))
   \<and> fst (snd (interleave example_config 10 ''s2'' ''s3''
             [First, Second, First, First, Second, Second]
             (Start example_R1, Start example_R1, example_W1)))
       = Finished (Inr (JWT (secret example_config) (example_claims_A2\<lparr>sessionId := ''s3''\<rparr>),
                        JWT (secret example_config) (example_claims_R2\<lparr>sessionId := ''s3''\<rparr>)))"
  by (simp add: model_defs example_defs example2_defs)


end
